theory Spec2Isabelle
  imports
    Main
    "HOL-Library.Sublist"
    "HOL-Library.AList"
    "HOL-Library.Char_ord"
    "HOL-Library.List_Lexorder"
begin

section \<open>Strings\<close>

text \<open>
  Python strings are modelled as HOL strings. \<open>str.isupper\<close> and \<open>str.lower\<close> are
  modelled on the ASCII letters; every phrase the code searches for is ASCII. The operator
  \<open>in\<close> on two strings is \<^const>\<open>sublist\<close> (a contiguous occurrence).
\<close>

definition ascii_upper :: string where
  "ascii_upper = ''ABCDEFGHIJKLMNOPQRSTUVWXYZ''"

definition ascii_lower :: string where
  "ascii_lower = ''abcdefghijklmnopqrstuvwxyz''"

definition isupper :: "char \<Rightarrow> bool" where
  "isupper c = (c \<in> set ascii_upper)"

definition lower_char :: "char \<Rightarrow> char" where
  "lower_char c = (case map_of (zip ascii_upper ascii_lower) c of None \<Rightarrow> c | Some d \<Rightarrow> d)"


definition lower :: "string \<Rightarrow> string" where
  "lower s = map lower_char s"

definition squote :: "string \<Rightarrow> string" where
  "squote s = [CHR 0x27] @ s @ [CHR 0x27]"

section \<open>Component store and tools (tools.py)\<close>

text \<open>
  The directory \<open>generated/components\<close> is a finite table from component name
  (the file \<open>name.tsx\<close>) to file content; the order of the table is the order in which
  the directory is enumerated. Writing an existing file replaces its content in place,
  writing a new one adds an entry. Faults of the file system itself (which every tool
  catches and turns into an error result) are not part of the model.
\<close>

type_synonym store = "(string \<times> string) list"

definition COMPONENTS_PATH :: string where
  "COMPONENTS_PATH = ''generated/components''"


definition component_path :: "string \<Rightarrow> string" where
  "component_path name = COMPONENTS_PATH @ ''/'' @ name @ ''.tsx''"

definition file_exists :: "store \<Rightarrow> string \<Rightarrow> bool" where
  "file_exists fs name = (map_of fs name \<noteq> None)"

definition write_file :: "store \<Rightarrow> string \<Rightarrow> string \<Rightarrow> store" where
  "write_file fs name code = AList.update name code fs"

text \<open>
  The dictionaries the tools return. \<open>ErrorResult m\<close> is
  \<open>{"status": "error", "message": m}\<close>; the others have status \<open>success\<close>.
\<close>

datatype tool_result =
    ErrorResult (r_message: string)
  | WriteOk (r_filepath: string) (r_component_name: string) (r_message: string)
  | ReadOk (r_component_name: string) (r_content: string) (r_filepath: string)
  | ListOk (r_components: "(string \<times> string) list") (r_count: nat)
  | PageOk (r_filepath: string) (r_page_name: string) (r_code: string) (r_message: string)

fun status :: "tool_result \<Rightarrow> string" where
  "status (ErrorResult m) = ''error''"
| "status (WriteOk p n m) = ''success''"
| "status (ReadOk n c p) = ''success''"
| "status (ListOk cs k) = ''success''"
| "status (PageOk p n c m) = ''success''"

definition name_error :: tool_result where
  "name_error = ErrorResult ''Component name must start with an uppercase letter''"

definition prose_error :: tool_result where
  "prose_error = ErrorResult
     (''The '' @ squote ''code'' @ '' parameter should contain only the actual component code, ''
      @ ''not explanatory text. Please provide just the TypeScript/React code.'')"

definition not_code_error :: tool_result where
  "not_code_error = ErrorResult
     (''The code doesn'' @ [CHR 0x27] @ ''t appear to contain a valid React component. ''
      @ ''Please provide complete component code.'')"

definition exists_error :: "string \<Rightarrow> tool_result" where
  "exists_error name = ErrorResult
     (''Component '' @ squote name @ '' already exists. Use update_component to modify it.'')"

definition not_found_error :: "string \<Rightarrow> tool_result" where
  "not_found_error name = ErrorResult
     (''Component '' @ squote name @ '' not found. Use create_component to create it.'')"

definition create_phrases :: "string list" where
  "create_phrases =
     [''here is'', ''i have created'', ''i'' @ [CHR 0x27] @ ''ve created'', ''this component'', ''## '']"

definition update_phrases :: "string list" where
  "update_phrases =
     [''here is'', ''i have updated'', ''i'' @ [CHR 0x27] @ ''ve updated'', ''the updated'', ''## '']"

definition looks_like_prose :: "string list \<Rightarrow> string \<Rightarrow> bool" where
  "looks_like_prose phrases code = (\<exists>phrase \<in> set phrases. sublist phrase (lower code))"

definition has_code_pattern :: "string \<Rightarrow> bool" where
  "has_code_pattern code =
     (sublist ''function'' (lower code) \<or> sublist ''const'' (lower code) \<or> sublist ''=>'' code)"

definition create_component :: "store \<Rightarrow> string \<Rightarrow> string \<Rightarrow> tool_result \<times> store" where
  "create_component fs name code =
     (if name = [] \<or> \<not> isupper (hd name) then (name_error, fs)
      else if looks_like_prose create_phrases code then (prose_error, fs)
      else if \<not> has_code_pattern code then (not_code_error, fs)
      else if file_exists fs name then (exists_error name, fs)
      else (WriteOk (component_path name) name
              (''Component '' @ squote name @ '' created successfully''),
            write_file fs name code))"

definition update_component :: "store \<Rightarrow> string \<Rightarrow> string \<Rightarrow> tool_result \<times> store" where
  "update_component fs name code =
     (if looks_like_prose update_phrases code then (prose_error, fs)
      else if \<not> has_code_pattern code then (not_code_error, fs)
      else if \<not> file_exists fs name then (not_found_error name, fs)
      else (WriteOk (component_path name) name
              (''Component '' @ squote name @ '' updated successfully''),
            write_file fs name code))"

definition read_component :: "store \<Rightarrow> string \<Rightarrow> tool_result" where
  "read_component fs name =
     (case map_of fs name of
        None \<Rightarrow> ErrorResult (''Component '' @ squote name @ '' not found'')
      | Some text \<Rightarrow> ReadOk name text (component_path name))"

definition list_components :: "store \<Rightarrow> tool_result" where
  "list_components fs =
     ListOk (map (\<lambda>(name, text). (name, component_path name)) fs) (length fs)"

text \<open>
  \<open>process_tool_call\<close> indexes the argument dictionary outside any \<open>try\<close> block, so
  a missing key raises \<open>KeyError\<close> to the caller. The arguments are strings, as the
  signatures of the tools annotate them.
\<close>

datatype py_exn = KeyError string | ApiError string

type_synonym tool_input = "(string \<times> string) list"

definition process_tool_call ::
  "string \<Rightarrow> tool_input \<Rightarrow> store \<Rightarrow> py_exn + (tool_result \<times> store)" where
  "process_tool_call tool_name tool_input fs =
     (if tool_name = ''create_component'' then
        (case map_of tool_input ''name'' of
           None \<Rightarrow> Inl (KeyError ''name'')
         | Some name \<Rightarrow>
             (case map_of tool_input ''code'' of
                None \<Rightarrow> Inl (KeyError ''code'')
              | Some code \<Rightarrow> Inr (create_component fs name code)))
      else if tool_name = ''update_component'' then
        (case map_of tool_input ''name'' of
           None \<Rightarrow> Inl (KeyError ''name'')
         | Some name \<Rightarrow>
             (case map_of tool_input ''code'' of
                None \<Rightarrow> Inl (KeyError ''code'')
              | Some code \<Rightarrow> Inr (update_component fs name code)))
      else if tool_name = ''read_component'' then
        (case map_of tool_input ''name'' of
           None \<Rightarrow> Inl (KeyError ''name'')
         | Some name \<Rightarrow> Inr (read_component fs name, fs))
      else if tool_name = ''list_components'' then Inr (list_components fs, fs)
      else Inr (ErrorResult (''Unknown tool: '' @ tool_name), fs))"



section \<open>Layout synthesis (create_page in tools.py)\<close>

text \<open>
  The layout document after \<open>json.loads\<close>. A key that the code reads with \<open>.get\<close> is an
  optional field (\<open>None\<close> when the key is absent, which is also what \<open>.get\<close> returns);
  \<open>interactions\<close>, \<open>state\<close> and \<open>components\<close> default to the empty list. Coordinates and
  sizes are integers. The initial value of a state variable is any JSON value \<open>'v\<close>, printed
  by \<open>json.dumps\<close>, which is a parameter \<open>dumps\<close> of the model.
\<close>

record 'v state_var =
  sv_name :: "string option"
  sv_type :: "string option"
  sv_initialValue :: "'v option"

record 'v interaction =
  i_type :: "string option"
  i_handlerName :: "string option"
  i_code :: "string option"
  i_state :: "'v state_var list"

record position =
  pos_x :: "int option"
  pos_y :: "int option"

record size =
  size_width :: "int option"
  size_height :: "int option"

record 'v layout_item =
  componentName :: "string option"
  item_id :: "string option"
  item_position :: "position option"
  item_size :: "size option"
  interactions :: "'v interaction list"







definition digit :: "nat \<Rightarrow> char" where
  "digit d = ''0123456789'' ! d"

fun str_nat :: "nat \<Rightarrow> string" where
  "str_nat n = (if n < 10 then [digit n] else str_nat (n div 10) @ [digit (n mod 10)])"

declare str_nat.simps [simp del]

definition str_int :: "int \<Rightarrow> string" where
  "str_int i = (if i < 0 then CHR ''-'' # str_nat (nat (- i)) else str_nat (nat i))"



fun join :: "string \<Rightarrow> string list \<Rightarrow> string" where
  "join sep [] = []"
| "join sep [l] = l"
| "join sep (l # m # ls) = l @ sep @ join sep (m # ls)"

























definition digits :: "char set" where
  "digits = set ''0123456789''"



text \<open>The style string, part by part.\<close>

definition xy_part :: "'v layout_item \<Rightarrow> string" where
  "xy_part item =
     ''left: '' @ str_int (case item_position item of None \<Rightarrow> 0
                | Some p \<Rightarrow> (case pos_x p of None \<Rightarrow> 0 | Some v \<Rightarrow> v))
     @ '', top: '' @ str_int (case item_position item of None \<Rightarrow> 0
                | Some p \<Rightarrow> (case pos_y p of None \<Rightarrow> 0 | Some v \<Rightarrow> v))"

definition width_part :: "'v layout_item \<Rightarrow> string" where
  "width_part item =
     (case item_size item of None \<Rightarrow> [] | Some s \<Rightarrow>
        (case size_width s of None \<Rightarrow> []
         | Some w \<Rightarrow> if w \<noteq> 0 then '', width: '' @ str_int w else []))"

definition height_part :: "'v layout_item \<Rightarrow> string" where
  "height_part item =
     (case item_size item of None \<Rightarrow> [] | Some s \<Rightarrow>
        (case size_height s of None \<Rightarrow> []
         | Some h \<Rightarrow> if h \<noteq> 0 then '', height: '' @ str_int h else []))"

section \<open>Agent loops (component_agent.py)\<close>

text \<open>
  The language model is a parameter: \<open>llm i messages\<close> is what
  \<open>client.messages.create\<close> does at the \<open>i\<close>-th call of a run on the transcript
  \<open>messages\<close>, either an exception or a response with its stop reason and content blocks.
\<close>

datatype content_block =
    TextBlock string
  | ToolUseBlock string string tool_input

record response =
  stop_reason :: string
  resp_content :: "content_block list"

datatype msg_content =
    Text string
  | Blocks "content_block list"
  | ToolResults "(string \<times> tool_result) list"

record message =
  role :: string
  msg_content :: msg_content

type_synonym llm = "nat \<Rightarrow> message list \<Rightarrow> py_exn + response"

definition max_iterations :: nat where
  "max_iterations = 5"

fun str_exn :: "py_exn \<Rightarrow> string" where
  "str_exn (KeyError k) = squote k"
| "str_exn (ApiError m) = m"

definition unlines :: "string list \<Rightarrow> string" where
  "unlines ls = join [CHR 0x0A] ls"

definition generate_prompt :: "string \<Rightarrow> string \<Rightarrow> string" where
  "generate_prompt prompt component_name = unlines
     [''Create a React TypeScript component named '' @ squote component_name
        @ '' based on this description:'',
      [],
      prompt,
      [],
      ''Requirements:'',
      ''- Use TypeScript with proper type definitions'',
      ''- Use Tailwind CSS for all styling'',
      ''- Make it a functional component with export default'',
      ''- Make it responsive and accessible'',
      ''- Include any necessary props with TypeScript interfaces'',
      ''- Use modern React patterns (hooks if needed)'',
      [],
      ''IMPORTANT: You must use the create_component tool to save the component. ''
        @ ''Do not just describe the component - actually call the create_component tool ''
        @ ''with the full component code.'']"

definition edit_prompt :: "string \<Rightarrow> string \<Rightarrow> string \<Rightarrow> string \<Rightarrow> string" where
  "edit_prompt component_name edit_description existing_code closing = unlines
     [''Please edit the React TypeScript component '' @ squote component_name
        @ '' based on this description:'',
      [],
      edit_description,
      [],
      ''Here is the current component code:'',
      [],
      replicate 3 (CHR 0x60) @ ''tsx'',
      existing_code,
      replicate 3 (CHR 0x60),
      [],
      ''Requirements:'',
      ''- Maintain TypeScript with proper type definitions'',
      ''- Keep using Tailwind CSS for styling'',
      ''- Keep it as a functional component with export default'',
      ''- Preserve the core functionality while making the requested changes'',
      ''- Use modern React patterns'',
      [],
      closing]"

definition create_reminder :: string where
  "create_reminder =
     ''Please use the create_component tool to save the component code. Don''
     @ [CHR 0x27] @ ''t just describe it - actually call the tool with the component code.''"

definition update_reminder :: string where
  "update_reminder =
     ''Please use the update_component tool to save the modified component code. Don''
     @ [CHR 0x27] @ ''t just describe it - actually call the tool with the component code.''"

record run =
  run_result :: tool_result
  run_store :: store
  run_iterations :: nat
  run_messages :: "message list"

text \<open>
  The loop \<open>for content_block in response.content\<close> of \<open>generate_component\<close> (with
  \<open>target = create_component\<close>) and of \<open>edit_component\<close> (with
  \<open>target = update_component\<close>). It returns from the function at the first successful call
  of the target tool, raises when \<open>process_tool_call\<close> raises, and otherwise completes with
  the tool results.
\<close>

datatype blocks_outcome =
    Returned tool_result store
  | Raised py_exn store
  | Completed "(string \<times> tool_result) list" store

fun run_tool_blocks ::
  "string \<Rightarrow> content_block list \<Rightarrow> (string \<times> tool_result) list \<Rightarrow> store \<Rightarrow> blocks_outcome" where
  "run_tool_blocks target [] tool_results fs = Completed tool_results fs"
| "run_tool_blocks target (TextBlock t # blocks) tool_results fs =
     run_tool_blocks target blocks tool_results fs"
| "run_tool_blocks target (ToolUseBlock block_id tool_name tool_input # blocks) tool_results fs =
     (case process_tool_call tool_name tool_input fs of
        Inl e \<Rightarrow> Raised e fs
      | Inr (result, fs') \<Rightarrow>
          if tool_name = target \<and> status result = ''success'' then Returned result fs'
          else run_tool_blocks target blocks (tool_results @ [(block_id, result)]) fs')"

function generate_loop :: "llm \<Rightarrow> string \<Rightarrow> nat \<Rightarrow> message list \<Rightarrow> store \<Rightarrow> run" where
  "generate_loop llm component_name iteration messages fs =
     (if iteration < max_iterations then
        (case llm (iteration + 1) messages of
           Inl e \<Rightarrow>
             \<lparr>run_result = ErrorResult (''Error generating component: '' @ str_exn e),
              run_store = fs, run_iterations = iteration + 1, run_messages = messages\<rparr>
         | Inr response \<Rightarrow>
             if stop_reason response = ''tool_use'' then
               (case run_tool_blocks ''create_component'' (resp_content response) [] fs of
                  Returned result fs' \<Rightarrow>
                    \<lparr>run_result = result, run_store = fs', run_iterations = iteration + 1,
                     run_messages = messages
                       @ [\<lparr>role = ''assistant'', msg_content = Blocks (resp_content response)\<rparr>]\<rparr>
                | Raised e fs' \<Rightarrow>
                    \<lparr>run_result = ErrorResult (''Error generating component: '' @ str_exn e),
                     run_store = fs', run_iterations = iteration + 1,
                     run_messages = messages
                       @ [\<lparr>role = ''assistant'', msg_content = Blocks (resp_content response)\<rparr>]\<rparr>
                | Completed tool_results fs' \<Rightarrow>
                    generate_loop llm component_name (iteration + 1)
                      (messages
                       @ [\<lparr>role = ''assistant'', msg_content = Blocks (resp_content response)\<rparr>,
                          \<lparr>role = ''user'', msg_content = ToolResults tool_results\<rparr>]) fs')
             else if stop_reason response = ''end_turn'' then
               (if status (read_component fs component_name) = ''success'' then
                  \<lparr>run_result = read_component fs component_name, run_store = fs,
                   run_iterations = iteration + 1, run_messages = messages\<rparr>
                else
                  generate_loop llm component_name (iteration + 1)
                    (messages
                     @ [\<lparr>role = ''assistant'', msg_content = Blocks (resp_content response)\<rparr>,
                        \<lparr>role = ''user'', msg_content = Text create_reminder\<rparr>]) fs)
             else
               \<lparr>run_result = ErrorResult
                  (''Component generation stopped unexpectedly: '' @ stop_reason response),
                run_store = fs, run_iterations = iteration + 1, run_messages = messages\<rparr>)
      else
        \<lparr>run_result = ErrorResult ''Component generation exceeded maximum iterations'',
         run_store = fs, run_iterations = iteration, run_messages = messages\<rparr>)"
  by pat_completeness auto
termination
  by (relation "measure (\<lambda>(llm, component_name, iteration, messages, fs).
        max_iterations - iteration)") auto

declare generate_loop.simps [simp del]

definition generate_component :: "llm \<Rightarrow> string \<Rightarrow> string \<Rightarrow> store \<Rightarrow> run" where
  "generate_component llm prompt component_name fs =
     generate_loop llm component_name 0
       [\<lparr>role = ''user'', msg_content = Text (generate_prompt prompt component_name)\<rparr>] fs"

function edit_loop :: "llm \<Rightarrow> string \<Rightarrow> nat \<Rightarrow> message list \<Rightarrow> store \<Rightarrow> run" where
  "edit_loop llm component_name iteration messages fs =
     (if iteration < max_iterations then
        (case llm (iteration + 1) messages of
           Inl e \<Rightarrow>
             \<lparr>run_result = ErrorResult (''Error editing component: '' @ str_exn e),
              run_store = fs, run_iterations = iteration + 1, run_messages = messages\<rparr>
         | Inr response \<Rightarrow>
             if stop_reason response = ''tool_use'' then
               (case run_tool_blocks ''update_component'' (resp_content response) [] fs of
                  Returned result fs' \<Rightarrow>
                    \<lparr>run_result = result, run_store = fs', run_iterations = iteration + 1,
                     run_messages = messages
                       @ [\<lparr>role = ''assistant'', msg_content = Blocks (resp_content response)\<rparr>]\<rparr>
                | Raised e fs' \<Rightarrow>
                    \<lparr>run_result = ErrorResult (''Error editing component: '' @ str_exn e),
                     run_store = fs', run_iterations = iteration + 1,
                     run_messages = messages
                       @ [\<lparr>role = ''assistant'', msg_content = Blocks (resp_content response)\<rparr>]\<rparr>
                | Completed tool_results fs' \<Rightarrow>
                    edit_loop llm component_name (iteration + 1)
                      (messages
                       @ [\<lparr>role = ''assistant'', msg_content = Blocks (resp_content response)\<rparr>,
                          \<lparr>role = ''user'', msg_content = ToolResults tool_results\<rparr>]) fs')
             else if stop_reason response = ''end_turn'' then
               \<lparr>run_result = ErrorResult
                  (''Component edit failed. Claude'' @ [CHR 0x27] @ ''s response: ''
                   @ concat (map (\<lambda>b. case b of TextBlock t \<Rightarrow> t | ToolUseBlock i n a \<Rightarrow> [])
                       (resp_content response))),
                run_store = fs, run_iterations = iteration + 1, run_messages = messages\<rparr>
             else
               \<lparr>run_result = ErrorResult
                  (''Component edit stopped unexpectedly: '' @ stop_reason response),
                run_store = fs, run_iterations = iteration + 1, run_messages = messages\<rparr>)
      else
        \<lparr>run_result = ErrorResult ''Component edit exceeded maximum iterations'',
         run_store = fs, run_iterations = iteration, run_messages = messages\<rparr>)"
  by pat_completeness auto
termination
  by (relation "measure (\<lambda>(llm, component_name, iteration, messages, fs).
        max_iterations - iteration)") auto

declare edit_loop.simps [simp del]

definition edit_component :: "llm \<Rightarrow> string \<Rightarrow> string \<Rightarrow> store \<Rightarrow> run" where
  "edit_component llm component_name edit_description fs =
     (case read_component fs component_name of
        ReadOk n existing_code p \<Rightarrow>
          edit_loop llm component_name 0
            [\<lparr>role = ''user'', msg_content = Text
               (edit_prompt component_name edit_description existing_code
                  ''Use the update_component tool to save the modified component.'')\<rparr>] fs
      | _ \<Rightarrow>
          \<lparr>run_result = ErrorResult (''Component '' @ squote component_name @ '' not found''),
           run_store = fs, run_iterations = 0, run_messages = []\<rparr>)"

text \<open>
  The streaming edit is a generator. Its run is the sequence of the steps it takes, in the
  order it takes them: \<open>Emit\<close> is a \<open>yield\<close> of an event, \<open>Exec\<close> is a call of
  \<open>read_component\<close>, of the language model or of \<open>process_tool_call\<close>. The events the
  consumer sees are the \<open>Emit\<close> steps.
\<close>

datatype event = Event string string

datatype action =
    ReadComponent string
  | CallLLM nat
  | CallTool string tool_input

datatype step = Emit event | Exec action

record stream =
  s_trace :: "step list"
  s_store :: store
  s_iterations :: nat
  s_messages :: "message list"

datatype stream_outcome =
    SReturned store "step list"
  | SRaised py_exn store "step list"
  | SCompleted "(string \<times> tool_result) list" store "step list"

definition iteration_event :: "nat \<Rightarrow> event" where
  "iteration_event iteration = Event ''progress''
     (''Agent iteration '' @ str_nat iteration @ ''/'' @ str_nat max_iterations @ ''...'')"

definition tool_event :: "string \<Rightarrow> event" where
  "tool_event tool_name = Event ''progress'' (''Calling tool: '' @ tool_name @ ''...'')"

definition reading_event :: "string \<Rightarrow> event" where
  "reading_event component_name =
     Event ''progress'' (''Reading component '' @ squote component_name @ ''...'')"

definition updated_event :: "string \<Rightarrow> event" where
  "updated_event component_name =
     Event ''success'' (''Component '' @ squote component_name @ '' updated successfully!'')"

definition raised_event :: "py_exn \<Rightarrow> event" where
  "raised_event e = Event ''error'' (''Error editing component: '' @ str_exn e)"

fun stream_tool_blocks ::
  "string \<Rightarrow> content_block list \<Rightarrow> (string \<times> tool_result) list \<Rightarrow> store \<Rightarrow> step list
     \<Rightarrow> stream_outcome" where
  "stream_tool_blocks component_name [] tool_results fs trace = SCompleted tool_results fs trace"
| "stream_tool_blocks component_name (TextBlock t # blocks) tool_results fs trace =
     stream_tool_blocks component_name blocks tool_results fs trace"
| "stream_tool_blocks component_name (ToolUseBlock block_id tool_name tool_input # blocks)
       tool_results fs trace =
     (case process_tool_call tool_name tool_input fs of
        Inl e \<Rightarrow>
          SRaised e fs (trace @ [Emit (tool_event tool_name), Exec (CallTool tool_name tool_input)])
      | Inr (result, fs') \<Rightarrow>
          if tool_name = ''update_component'' \<and> status result = ''success'' then
            SReturned fs'
              (trace @ [Emit (tool_event tool_name), Exec (CallTool tool_name tool_input),
                        Emit (updated_event component_name)])
          else
            stream_tool_blocks component_name blocks (tool_results @ [(block_id, result)]) fs'
              (trace @ [Emit (tool_event tool_name), Exec (CallTool tool_name tool_input)]))"

function stream_loop ::
  "llm \<Rightarrow> string \<Rightarrow> string \<Rightarrow> nat \<Rightarrow> message list \<Rightarrow> store \<Rightarrow> step list \<Rightarrow> stream" where
  "stream_loop llm component_name existing_code iteration messages fs trace =
     (if iteration < max_iterations then
        (case llm (iteration + 1) messages of
           Inl e \<Rightarrow>
             \<lparr>s_trace = trace @ [Emit (iteration_event (iteration + 1)),
                                  Exec (CallLLM (iteration + 1)), Emit (raised_event e)],
              s_store = fs, s_iterations = iteration + 1, s_messages = messages\<rparr>
         | Inr response \<Rightarrow>
             if stop_reason response = ''tool_use'' then
               (case stream_tool_blocks component_name (resp_content response) [] fs
                       (trace @ [Emit (iteration_event (iteration + 1)),
                                 Exec (CallLLM (iteration + 1))]) of
                  SReturned fs' trace' \<Rightarrow>
                    \<lparr>s_trace = trace', s_store = fs', s_iterations = iteration + 1,
                     s_messages = messages
                       @ [\<lparr>role = ''assistant'', msg_content = Blocks (resp_content response)\<rparr>]\<rparr>
                | SRaised e fs' trace' \<Rightarrow>
                    \<lparr>s_trace = trace' @ [Emit (raised_event e)], s_store = fs',
                     s_iterations = iteration + 1,
                     s_messages = messages
                       @ [\<lparr>role = ''assistant'', msg_content = Blocks (resp_content response)\<rparr>]\<rparr>
                | SCompleted tool_results fs' trace' \<Rightarrow>
                    stream_loop llm component_name existing_code (iteration + 1)
                      (messages
                       @ [\<lparr>role = ''assistant'', msg_content = Blocks (resp_content response)\<rparr>,
                          \<lparr>role = ''user'', msg_content = ToolResults tool_results\<rparr>]) fs' trace')
             else if stop_reason response = ''end_turn'' then
               (case read_component fs component_name of
                  ReadOk n text p \<Rightarrow>
                    if text \<noteq> existing_code then
                      \<lparr>s_trace = trace @ [Emit (iteration_event (iteration + 1)),
                                           Exec (CallLLM (iteration + 1)),
                                           Exec (ReadComponent component_name),
                                           Emit (updated_event component_name)],
                       s_store = fs, s_iterations = iteration + 1, s_messages = messages\<rparr>
                    else
                      stream_loop llm component_name existing_code (iteration + 1)
                        (messages
                         @ [\<lparr>role = ''assistant'', msg_content = Blocks (resp_content response)\<rparr>,
                            \<lparr>role = ''user'', msg_content = Text update_reminder\<rparr>]) fs
                        (trace @ [Emit (iteration_event (iteration + 1)),
                                  Exec (CallLLM (iteration + 1)),
                                  Exec (ReadComponent component_name),
                                  Emit (Event ''progress'' ''Prompting agent to use tool...'')])
                | _ \<Rightarrow>
                    stream_loop llm component_name existing_code (iteration + 1)
                      (messages
                       @ [\<lparr>role = ''assistant'', msg_content = Blocks (resp_content response)\<rparr>,
                          \<lparr>role = ''user'', msg_content = Text update_reminder\<rparr>]) fs
                      (trace @ [Emit (iteration_event (iteration + 1)),
                                Exec (CallLLM (iteration + 1)),
                                Exec (ReadComponent component_name),
                                Emit (Event ''progress'' ''Prompting agent to use tool...'')]))
             else
               \<lparr>s_trace = trace @ [Emit (iteration_event (iteration + 1)),
                                    Exec (CallLLM (iteration + 1)),
                                    Emit (Event ''error''
                                      (''Agent stopped unexpectedly: '' @ stop_reason response))],
                s_store = fs, s_iterations = iteration + 1, s_messages = messages\<rparr>)
      else
        \<lparr>s_trace = trace @ [Emit (Event ''error'' ''Component edit exceeded maximum iterations'')],
         s_store = fs, s_iterations = iteration, s_messages = messages\<rparr>)"
  by pat_completeness auto
termination
  by (relation "measure (\<lambda>(llm, component_name, existing_code, iteration, messages, fs, trace).
        max_iterations - iteration)") auto

declare stream_loop.simps [simp del]

definition edit_component_streaming :: "llm \<Rightarrow> string \<Rightarrow> string \<Rightarrow> store \<Rightarrow> stream" where
  "edit_component_streaming llm component_name edit_description fs =
     (case read_component fs component_name of
        ReadOk n existing_code p \<Rightarrow>
          stream_loop llm component_name existing_code 0
            [\<lparr>role = ''user'', msg_content = Text
               (edit_prompt component_name edit_description existing_code
                  (''IMPORTANT: You must use the update_component tool to save the modified ''
                   @ ''component. Do not just describe the component - actually call the ''
                   @ ''update_component tool with the full component code.''))\<rparr>] fs
            [Exec (ReadComponent component_name),
             Emit (reading_event component_name),
             Emit (Event ''progress'' ''Starting AI agent...'')]
      | _ \<Rightarrow>
          \<lparr>s_trace = [Exec (ReadComponent component_name),
                      Emit (Event ''error''
                        (''Component '' @ squote component_name @ '' not found''))],
           s_store = fs, s_iterations = 0, s_messages = []\<rparr>)"

definition events :: "step list \<Rightarrow> event list" where
  "events trace = concat (map (\<lambda>s. case s of Emit e \<Rightarrow> [e] | Exec a \<Rightarrow> []) trace)"

text \<open>
  The event that announces an action, and the check that every action satisfying \<open>P\<close> comes
  directly after the event announcing it; \<open>prev\<close> is the step before the list.
\<close>

fun announces :: "event \<Rightarrow> action \<Rightarrow> bool" where
  "announces ev (ReadComponent component_name) = (ev = reading_event component_name)"
| "announces ev (CallLLM iteration) = (ev = iteration_event iteration)"
| "announces ev (CallTool tool_name tool_input) = (ev = tool_event tool_name)"

fun announced :: "(action \<Rightarrow> bool) \<Rightarrow> step option \<Rightarrow> step list \<Rightarrow> bool" where
  "announced P prev [] = True"
| "announced P prev (Emit ev # rest) = announced P (Some (Emit ev)) rest"
| "announced P prev (Exec a # rest) =
     ((if P a then (case prev of Some (Emit ev) \<Rightarrow> announces ev a | _ \<Rightarrow> False) else True)
      \<and> announced P (Some (Exec a)) rest)"

fun is_read :: "action \<Rightarrow> bool" where
  "is_read (ReadComponent component_name) = True"
| "is_read a = False"

fun is_llm_call :: "step \<Rightarrow> bool" where
  "is_llm_call (Exec (CallLLM iteration)) = True"
| "is_llm_call s = False"

fun outcome_trace :: "stream_outcome \<Rightarrow> step list" where
  "outcome_trace (SReturned fs trace) = trace"
| "outcome_trace (SRaised e fs trace) = trace"
| "outcome_trace (SCompleted tool_results fs trace) = trace"

definition not_read :: "action \<Rightarrow> bool" where
  "not_read a = (\<not> is_read a)"

definition any_action :: "action \<Rightarrow> bool" where
  "any_action a = True"

text \<open>Example language models and stores for concrete runs.\<close>

definition button_code :: string where
  "button_code = ''const Button = () => <button>Click</button>''"

definition chatty_llm :: llm where
  "chatty_llm i messages =
     Inr \<lparr>stop_reason = ''end_turn'', resp_content = [TextBlock ''Done.'']\<rparr>"


definition other_llm :: llm where
  "other_llm i messages =
     Inr \<lparr>stop_reason = ''tool_use'',
          resp_content =
            [ToolUseBlock ''t1'' ''update_component''
               [(''name'', ''Card''), (''code'', ''const Card = () => <p/>'')]]\<rparr>"



definition stopped_llm :: llm where
  "stopped_llm i messages = Inr \<lparr>stop_reason = ''max_tokens'', resp_content = []\<rparr>"

section \<open>Store properties\<close>

lemma status_error_iff: "status r = ''error'' \<longleftrightarrow> (\<exists>m. r = ErrorResult m)"
  by (cases r) simp_all

lemma status_errors [simp]:
  "status name_error = ''error''" "status prose_error = ''error''"
  "status not_code_error = ''error''" "status (exists_error n) = ''error''"
  "status (not_found_error n) = ''error''"
  by (simp_all add: name_error_def prose_error_def not_code_error_def exists_error_def
      not_found_error_def)

lemma file_exists_write [simp]: "file_exists (write_file fs name code) name"
  by (simp add: file_exists_def write_file_def update_conv')

lemma create_success_exists:
  assumes "create_component fs name c1 = (r1, fs1)" and "status r1 = ''success''"
  shows "file_exists fs1 name"
  using assms by (auto simp: create_component_def split: if_splits)

lemma create_success_valid_name:
  assumes "create_component fs name c1 = (r1, fs1)" and "status r1 = ''success''"
  shows "name \<noteq> [] \<and> isupper (hd name)"
  using assms by (auto simp: create_component_def split: if_splits)

lemmas eval_defs = create_component_def update_component_def read_component_def
  looks_like_prose_def has_code_pattern_def create_phrases_def update_phrases_def
  lower_def lower_char_def isupper_def ascii_upper_def ascii_lower_def file_exists_def
  write_file_def sublist_Cons_right

text \<open>
  C2, as the code has it. After a successful \<open>create(name, c1)\<close>, a second
  \<open>create(name, c2)\<close> always fails and leaves the store as it was. The content checks run
  before the existence check, so the error is the already-exists error exactly when \<open>c2\<close>
  passes both content checks; otherwise it is the error of the content check that rejects
  \<open>c2\<close>.
\<close>

theorem create_twice_fails:
  assumes "create_component fs name c1 = (r1, fs1)" and "status r1 = ''success''"
  shows "status (fst (create_component fs1 name c2)) = ''error''
       \<and> snd (create_component fs1 name c2) = fs1
       \<and> fst (create_component fs1 name c2) =
           (if looks_like_prose create_phrases c2 then prose_error
            else if \<not> has_code_pattern c2 then not_code_error
            else exists_error name)"
  using create_success_exists [OF assms] create_success_valid_name [OF assms]
  by (simp add: create_component_def)

theorem create_twice_fails_witness:
  "fst (create_component [(''Button'', ''const Button = () => <button>Click</button>'')]
      ''Button'' ''const Button = () => <a>Other</a>'') = exists_error ''Button''"
  using create_twice_fails [of "[]" "''Button''" "''const Button = () => <button>Click</button>''"
      "WriteOk (component_path ''Button'') ''Button''
         (''Component '' @ squote ''Button'' @ '' created successfully'')"
      "[(''Button'', ''const Button = () => <button>Click</button>'')]"
      "''const Button = () => <a>Other</a>''"]
  by (simp add: eval_defs)

text \<open>
  C2 as stated fails: the second \<open>create\<close> of an existing name with prose as code is
  rejected by the prose check, not with the already-exists error.
\<close>

theorem create_twice_counterexample:
  "status (fst (create_component [] ''Button'' ''const Button = () => <button>Click</button>''))
     = ''success''
   \<and> fst (create_component
          (snd (create_component [] ''Button'' ''const Button = () => <button>Click</button>''))
          ''Button'' ''## Here is the button'') = prose_error
   \<and> prose_error \<noteq> exists_error ''Button''"
  by (simp add: eval_defs prose_error_def exists_error_def squote_def)




text \<open>
  C8. For an existing artifact and a code string that the content checks of \<open>update\<close>
  reject, \<open>update(name, code)\<close> returns the error of the rejecting check (the prose error
  when a prose phrase occurs, else the not-code error), the store is unchanged, and reading
  the name afterwards returns the previous content.
\<close>

theorem update_rejected_keeps_content:
  assumes "map_of fs name = Some old"
    and "looks_like_prose update_phrases code \<or> \<not> has_code_pattern code"
  shows "update_component fs name code =
           (if looks_like_prose update_phrases code then prose_error else not_code_error, fs)
       \<and> read_component (snd (update_component fs name code)) name
           = ReadOk name old (component_path name)"
  using assms by (auto simp: update_component_def read_component_def)

theorem update_rejected_keeps_content_witness:
  "update_component [(''Button'', ''const Button = () => <button>Click</button>'')]
      ''Button'' ''## Here is the button''
     = (prose_error, [(''Button'', ''const Button = () => <button>Click</button>'')])
   \<and> read_component
        (snd (update_component [(''Button'', ''const Button = () => <button>Click</button>'')]
           ''Button'' ''## Here is the button'')) ''Button''
     = ReadOk ''Button'' ''const Button = () => <button>Click</button>'' (component_path ''Button'')"
  using update_rejected_keeps_content
    [of "[(''Button'', ''const Button = () => <button>Click</button>'')]" "''Button''"
      "''const Button = () => <button>Click</button>''" "''## Here is the button''"]
  by (simp add: eval_defs)

section \<open>Tool dispatch\<close>










section \<open>Layout synthesis: the state-variable table\<close>














section \<open>Layout synthesis: determinism\<close>


section \<open>Layout synthesis: the wrapper style\<close>



lemma digit_in_digits: "d < 10 \<Longrightarrow> digit d \<in> digits"
proof -
  assume "d < 10"
  then have "d \<in> {0, 1, 2, 3, 4, 5, 6, 7, 8, 9}" by auto
  then show ?thesis by (auto simp: digit_def digits_def)
qed


lemma str_nat_digits: "set (str_nat n) \<subseteq> digits"
proof (induction n rule: str_nat.induct)
  case (1 n)
  show ?case
  proof (cases "n < 10")
    case True
    then show ?thesis by (subst str_nat.simps) (simp add: digit_in_digits)
  next
    case False
    with 1 show ?thesis by (subst str_nat.simps) (simp add: digit_in_digits)
  qed
qed



lemma str_int_chars: "set (str_int i) \<subseteq> insert CHR ''-'' digits"
  using str_nat_digits by (auto simp: str_int_def)




lemma str_int_letters [simp]:
  "CHR ''w'' \<notin> set (str_int i)" "CHR ''g'' \<notin> set (str_int i)"
  using str_int_chars [of i] by (auto simp: digits_def)


lemma xy_part_letters [simp]:
  "CHR ''w'' \<notin> set (xy_part item)" "CHR ''g'' \<notin> set (xy_part item)"
  by (simp_all add: xy_part_def)

lemma width_part_g [simp]: "CHR ''g'' \<notin> set (width_part item)"
  by (simp add: width_part_def split: option.splits)

lemma height_part_w [simp]: "CHR ''w'' \<notin> set (height_part item)"
  by (simp add: height_part_def split: option.splits)









section \<open>Agent loops: termination\<close>

lemma end_turn_not_tool_use [simp]: "''end_turn'' \<noteq> ''tool_use''"
  by simp

lemma read_missing: "\<not> file_exists fs name \<Longrightarrow> status (read_component fs name) = ''error''"
  by (simp add: file_exists_def read_component_def)

lemma generate_loop_end_turn:
  assumes llm: "\<forall>i msgs. \<exists>r. llm i msgs = Inr r \<and> stop_reason r = ''end_turn''"
    and missing: "\<not> file_exists fs component_name"
  shows "iteration \<le> max_iterations \<Longrightarrow>
     run_result (generate_loop llm component_name iteration messages fs)
       = ErrorResult ''Component generation exceeded maximum iterations''
     \<and> run_store (generate_loop llm component_name iteration messages fs) = fs
     \<and> run_iterations (generate_loop llm component_name iteration messages fs) = max_iterations"
proof (induction "max_iterations - iteration" arbitrary: iteration messages)
  case 0
  then have "iteration = max_iterations" by simp
  then show ?case by (subst (1 2 3) generate_loop.simps) simp
next
  case (Suc k)
  then have lt: "iteration < max_iterations" and le: "iteration + 1 \<le> max_iterations"
    and k: "k = max_iterations - (iteration + 1)" by simp_all
  from llm obtain r where r: "llm (iteration + 1) messages = Inr r" "stop_reason r = ''end_turn''"
    by blast
  have step: "generate_loop llm component_name iteration messages fs
      = generate_loop llm component_name (iteration + 1)
          (messages @ [\<lparr>role = ''assistant'', msg_content = Blocks (resp_content r)\<rparr>,
                       \<lparr>role = ''user'', msg_content = Text create_reminder\<rparr>]) fs"
    using lt r read_missing [OF missing] by (subst generate_loop.simps) simp
  show ?case
    unfolding step using Suc.hyps(1) [OF k le] .
qed

lemma generate_loop_bounded:
  "iteration \<le> max_iterations \<Longrightarrow>
     run_iterations (generate_loop llm component_name iteration messages fs) \<le> max_iterations"
proof (induction llm component_name iteration messages fs rule: generate_loop.induct)
  case (1 llm component_name iteration messages fs)
  show ?case
  proof (cases "iteration < max_iterations")
    case False
    with "1.prems" show ?thesis by (subst generate_loop.simps) simp
  next
    case True
    then have le: "iteration + 1 \<le> max_iterations" by simp
    show ?thesis
      using True le "1.IH"
      by (subst generate_loop.simps)
        (auto split: sum.splits blocks_outcome.splits)
  qed
qed

lemma edit_loop_bounded:
  "iteration \<le> max_iterations \<Longrightarrow>
     run_iterations (edit_loop llm component_name iteration messages fs) \<le> max_iterations"
proof (induction llm component_name iteration messages fs rule: edit_loop.induct)
  case (1 llm component_name iteration messages fs)
  show ?case
  proof (cases "iteration < max_iterations")
    case False
    with "1.prems" show ?thesis by (subst edit_loop.simps) simp
  next
    case True
    then have le: "iteration + 1 \<le> max_iterations" by simp
    show ?thesis
      using True le "1.IH"
      by (subst edit_loop.simps)
        (auto split: sum.splits blocks_outcome.splits)
  qed
qed

lemma stream_loop_bounded:
  "iteration \<le> max_iterations \<Longrightarrow>
     s_iterations (stream_loop llm component_name existing_code iteration messages fs trace)
       \<le> max_iterations"
proof (induction llm component_name existing_code iteration messages fs trace
    rule: stream_loop.induct)
  case (1 llm component_name existing_code iteration messages fs trace)
  show ?case
  proof (cases "iteration < max_iterations")
    case False
    with "1.prems" show ?thesis by (subst stream_loop.simps) simp
  next
    case True
    then have le: "iteration + 1 \<le> max_iterations" by simp
    show ?thesis
      using True le "1.IH"
      by (subst stream_loop.simps)
        (auto split: sum.splits stream_outcome.splits tool_result.splits)
  qed
qed

lemma stream_loop_end_turn:
  assumes llm: "\<forall>i msgs. \<exists>r. llm i msgs = Inr r \<and> stop_reason r = ''end_turn''"
    and same: "map_of fs component_name = Some existing_code"
  shows "iteration \<le> max_iterations \<Longrightarrow>
     last (s_trace (stream_loop llm component_name existing_code iteration messages fs trace))
       = Emit (Event ''error'' ''Component edit exceeded maximum iterations'')
     \<and> length (filter is_llm_call
          (s_trace (stream_loop llm component_name existing_code iteration messages fs trace)))
       = length (filter is_llm_call trace) + (max_iterations - iteration)
     \<and> s_store (stream_loop llm component_name existing_code iteration messages fs trace) = fs
     \<and> s_iterations (stream_loop llm component_name existing_code iteration messages fs trace)
       = max_iterations"
proof (induction "max_iterations - iteration" arbitrary: iteration messages trace)
  case 0
  then have "iteration = max_iterations" by simp
  then show ?case by (subst (1 2 3 4) stream_loop.simps) simp
next
  case (Suc k)
  then have lt: "iteration < max_iterations" and le: "iteration + 1 \<le> max_iterations"
    and k: "k = max_iterations - (iteration + 1)" by simp_all
  from llm obtain r where r: "llm (iteration + 1) messages = Inr r" "stop_reason r = ''end_turn''"
    by blast
  have step: "stream_loop llm component_name existing_code iteration messages fs trace
      = stream_loop llm component_name existing_code (iteration + 1)
          (messages @ [\<lparr>role = ''assistant'', msg_content = Blocks (resp_content r)\<rparr>,
                       \<lparr>role = ''user'', msg_content = Text update_reminder\<rparr>]) fs
          (trace @ [Emit (iteration_event (iteration + 1)), Exec (CallLLM (iteration + 1)),
                    Exec (ReadComponent component_name),
                    Emit (Event ''progress'' ''Prompting agent to use tool...'')])"
    using lt r same by (subst stream_loop.simps) (simp add: read_component_def)
  show ?case
    unfolding step using Suc.hyps(1) [OF k le] lt by simp
qed

lemma edit_loop_end_turn:
  assumes "llm (iteration + 1) messages = Inr r" and "stop_reason r = ''end_turn''"
    and "iteration < max_iterations"
  shows "edit_loop llm component_name iteration messages fs =
     \<lparr>run_result = ErrorResult
        (''Component edit failed. Claude'' @ [CHR 0x27] @ ''s response: ''
         @ concat (map (\<lambda>b. case b of TextBlock t \<Rightarrow> t | ToolUseBlock i n a \<Rightarrow> [])
             (resp_content r))),
      run_store = fs, run_iterations = iteration + 1, run_messages = messages\<rparr>"
  using assms by (subst edit_loop.simps) simp

text \<open>
  C4, as the code has it. When every call of the language model returns with stop reason
  \<open>end_turn\<close> and the target component is not created (creation) or keeps its content
  (streaming edit), \<open>generate_component\<close> returns the error of exhausted iterations with
  the iteration counter at \<open>max_iterations = 5\<close>, and \<open>edit_component_streaming\<close> ends
  with the error event of exhausted iterations after exactly five calls of the language
  model. The non-streaming \<open>edit_component\<close> gives up at the first \<open>end_turn\<close>: it
  returns its own error after one call. All three loops are total functions, and for any
  language model whatever their iteration counter never exceeds \<open>max_iterations\<close>.
\<close>

theorem end_turn_exhausts_iterations:
  assumes "\<forall>i msgs. \<exists>r. llm i msgs = Inr r \<and> stop_reason r = ''end_turn''"
  shows "(\<not> file_exists fs component_name \<longrightarrow>
            run_result (generate_component llm prompt component_name fs)
              = ErrorResult ''Component generation exceeded maximum iterations''
          \<and> run_iterations (generate_component llm prompt component_name fs) = 5
          \<and> run_store (generate_component llm prompt component_name fs) = fs)
       \<and> (file_exists fs component_name \<longrightarrow>
            last (events (s_trace (edit_component_streaming llm component_name description fs)))
              = Event ''error'' ''Component edit exceeded maximum iterations''
          \<and> length (filter is_llm_call
                (s_trace (edit_component_streaming llm component_name description fs))) = 5
          \<and> s_iterations (edit_component_streaming llm component_name description fs) = 5
          \<and> s_store (edit_component_streaming llm component_name description fs) = fs)
       \<and> (file_exists fs component_name \<longrightarrow>
            run_iterations (edit_component llm component_name description fs) = 1
          \<and> (\<exists>said. run_result (edit_component llm component_name description fs)
                = ErrorResult (''Component edit failed. Claude'' @ [CHR 0x27]
                    @ ''s response: '' @ said)))
       \<and> run_iterations (generate_component any_llm prompt component_name fs) \<le> 5
       \<and> s_iterations (edit_component_streaming any_llm component_name description fs) \<le> 5
       \<and> run_iterations (edit_component any_llm component_name description fs) \<le> 5"
proof (intro conjI impI)
  assume missing: "\<not> file_exists fs component_name"
  note g = generate_loop_end_turn [OF assms missing, of 0, unfolded max_iterations_def]
  show "run_result (generate_component llm prompt component_name fs)
      = ErrorResult ''Component generation exceeded maximum iterations''"
    and "run_iterations (generate_component llm prompt component_name fs) = 5"
    and "run_store (generate_component llm prompt component_name fs) = fs"
    using g by (simp_all add: generate_component_def)
next
  assume "file_exists fs component_name"
  then obtain existing_code where ex: "map_of fs component_name = Some existing_code"
    by (auto simp: file_exists_def)
  define final where "final = edit_component_streaming llm component_name description fs"
  note s = stream_loop_end_turn [OF assms ex, of 0, unfolded max_iterations_def]
  have tr: "last (s_trace final) = Emit (Event ''error'' ''Component edit exceeded maximum iterations'')"
    and calls: "length (filter is_llm_call (s_trace final)) = 5"
    and it: "s_iterations final = 5" and st: "s_store final = fs"
    using s ex by (simp_all add: final_def edit_component_streaming_def read_component_def)
  from calls have ne: "s_trace final \<noteq> []" by auto
  then obtain ys where ys: "s_trace final = ys @ [Emit (Event ''error'' ''Component edit exceeded maximum iterations'')]"
    using tr by (metis append_butlast_last_id)
  have "last (events (s_trace final)) = Event ''error'' ''Component edit exceeded maximum iterations''"
    by (simp add: ys events_def)
  then show "last (events (s_trace (edit_component_streaming llm component_name description fs)))
      = Event ''error'' ''Component edit exceeded maximum iterations''"
    and "length (filter is_llm_call
          (s_trace (edit_component_streaming llm component_name description fs))) = 5"
    and "s_iterations (edit_component_streaming llm component_name description fs) = 5"
    and "s_store (edit_component_streaming llm component_name description fs) = fs"
    using calls it st by (simp_all add: final_def)
next
  assume "file_exists fs component_name"
  then obtain existing_code where ex: "map_of fs component_name = Some existing_code"
    by (auto simp: file_exists_def)
  define first_messages where "first_messages =
    [\<lparr>role = ''user'', msg_content = Text
       (edit_prompt component_name description existing_code
          ''Use the update_component tool to save the modified component.'')\<rparr>]"
  from assms obtain r where r: "llm (0 + 1) first_messages = Inr r" "stop_reason r = ''end_turn''"
    by blast
  have run: "edit_component llm component_name description fs
      = edit_loop llm component_name 0 first_messages fs"
    using ex by (simp add: edit_component_def read_component_def first_messages_def)
  have lt: "0 < max_iterations" by (simp add: max_iterations_def)
  note ended = edit_loop_end_turn [where llm = llm and iteration = 0
      and messages = first_messages and component_name = component_name and fs = fs,
      OF r lt]
  show "run_iterations (edit_component llm component_name description fs) = 1"
    unfolding run ended by simp
  show "\<exists>said. run_result (edit_component llm component_name description fs)
      = ErrorResult (''Component edit failed. Claude'' @ [CHR 0x27] @ ''s response: '' @ said)"
    unfolding run ended by simp
next
  show "run_iterations (edit_component any_llm component_name description fs) \<le> 5"
    using edit_loop_bounded [of 0 any_llm]
    by (simp add: edit_component_def max_iterations_def split: tool_result.splits)
next
  show "run_iterations (generate_component any_llm prompt component_name fs) \<le> 5"
    using generate_loop_bounded [of 0 any_llm] by (simp add: generate_component_def max_iterations_def)
next
  show "s_iterations (edit_component_streaming any_llm component_name description fs) \<le> 5"
    using stream_loop_bounded [of 0 any_llm]
    by (simp add: edit_component_streaming_def max_iterations_def split: tool_result.splits)
qed

theorem end_turn_exhausts_iterations_witness:
  "run_result (generate_component chatty_llm ''a button'' ''Button'' [])
     = ErrorResult ''Component generation exceeded maximum iterations''
   \<and> run_iterations (generate_component chatty_llm ''a button'' ''Button'' []) = 5
   \<and> last (events (s_trace (edit_component_streaming chatty_llm ''Button'' ''bigger''
        [(''Button'', button_code)])))
     = Event ''error'' ''Component edit exceeded maximum iterations''
   \<and> length (filter is_llm_call (s_trace (edit_component_streaming chatty_llm ''Button''
        ''bigger'' [(''Button'', button_code)]))) = 5
   \<and> run_iterations (edit_component chatty_llm ''Button'' ''bigger''
        [(''Button'', button_code)]) = 1"
proof -
  have llm: "\<forall>i msgs. \<exists>r. chatty_llm i msgs = Inr r \<and> stop_reason r = ''end_turn''"
    by (simp add: chatty_llm_def)
  have missing: "\<not> file_exists [] ''Button''"
    by (simp add: file_exists_def)
  have present: "file_exists [(''Button'', button_code)] ''Button''"
    by (simp add: file_exists_def)
  from end_turn_exhausts_iterations [OF llm, of "[]" "''Button''" "''a button''"] missing
    end_turn_exhausts_iterations [OF llm, of "[(''Button'', button_code)]" "''Button''" _ "''bigger''"]
    present
  show ?thesis by blast
qed

text \<open>
  C4 as stated fails for the non-streaming edit: with a language model that always ends its
  turn, \<open>edit_component\<close> returns after one call, with its own error and not the error of
  exhausted iterations.
\<close>

theorem end_turn_edit_counterexample:
  "run_iterations (edit_component chatty_llm ''Button'' ''bigger'' [(''Button'', button_code)]) = 1
   \<and> run_result (edit_component chatty_llm ''Button'' ''bigger'' [(''Button'', button_code)])
     = ErrorResult (''Component edit failed. Claude'' @ [CHR 0x27] @ ''s response: Done.'')
   \<and> run_result (edit_component chatty_llm ''Button'' ''bigger'' [(''Button'', button_code)])
     \<noteq> ErrorResult ''Component edit exceeded maximum iterations''"
  by (simp add: edit_component_def read_component_def edit_loop.simps chatty_llm_def
      max_iterations_def)

section \<open>Agent loops: the tool-use step\<close>














section \<open>Streaming edit: order of events and actions\<close>

lemma announced_mono: "announced P None steps \<Longrightarrow> announced P prev steps"
proof (cases steps)
  case Nil
  then show ?thesis by simp
next
  case (Cons s rest)
  assume "announced P None steps"
  with Cons show ?thesis by (cases s) (auto split: if_splits)
qed

lemma announced_append:
  "announced P prev xs \<Longrightarrow> announced P None ys \<Longrightarrow> announced P prev (xs @ ys)"
proof (induction xs arbitrary: prev)
  case Nil
  then show ?case by (simp add: announced_mono)
next
  case (Cons s xs)
  then show ?case by (cases s) simp_all
qed

lemma announced_llm: "announced not_read None [Emit (iteration_event i), Exec (CallLLM i)]"
  by (simp add: not_read_def)

lemma announced_tool:
  "announced not_read None [Emit (tool_event n), Exec (CallTool n tool_input)]"
  by (simp add: not_read_def)

lemma announced_tool_success:
  "announced not_read None [Emit (tool_event n), Exec (CallTool n tool_input), Emit ev]"
  by (simp add: not_read_def)

lemma stream_tool_blocks_announced:
  "announced not_read None trace \<Longrightarrow>
     announced not_read None (outcome_trace (stream_tool_blocks name blocks acc fs trace))"
proof (induction name blocks acc fs trace rule: stream_tool_blocks.induct)
  case (1 component_name tool_results fs trace)
  then show ?case by simp
next
  case (2 component_name t blocks tool_results fs trace)
  then show ?case by simp
next
  case (3 component_name block_id tool_name tool_input blocks tool_results fs trace)
  have ext: "announced not_read None
      (trace @ [Emit (tool_event tool_name), Exec (CallTool tool_name tool_input)])"
    using "3.prems" announced_tool by (rule announced_append)
  have ext': "announced not_read None
      (trace @ [Emit (tool_event tool_name), Exec (CallTool tool_name tool_input),
                Emit (updated_event component_name)])"
    using "3.prems" announced_tool_success by (rule announced_append)
  show ?case
  proof (cases "process_tool_call tool_name tool_input fs")
    case (Inl e)
    with ext show ?thesis by simp
  next
    case (Inr res)
    obtain result fs' where res: "res = (result, fs')" by (cases res)
    show ?thesis
    proof (cases "tool_name = ''update_component'' \<and> status result = ''success''")
      case True
      with Inr res ext' show ?thesis by simp
    next
      case False
      with Inr res "3.IH" [OF Inr res [symmetric] False ext] show ?thesis by auto
    qed
  qed
qed

lemma stream_loop_announced:
  "announced not_read None trace \<Longrightarrow>
     announced not_read None
       (s_trace (stream_loop llm component_name existing_code iteration messages fs trace))"
proof (induction llm component_name existing_code iteration messages fs trace
    rule: stream_loop.induct)
  case (1 llm component_name existing_code iteration messages fs trace)
  note inv = "1.prems"
  have called: "announced not_read None
      (trace @ [Emit (iteration_event (iteration + 1)), Exec (CallLLM (iteration + 1))])"
    using inv announced_llm by (rule announced_append)
  have ended: "\<And>ev. announced not_read None
      (trace @ [Emit (iteration_event (iteration + 1)), Exec (CallLLM (iteration + 1)), Emit ev])"
    using inv by (rule announced_append) (simp add: not_read_def)
  have reread: "\<And>ev. announced not_read None
      (trace @ [Emit (iteration_event (iteration + 1)), Exec (CallLLM (iteration + 1)),
                Exec (ReadComponent component_name), Emit ev])"
    using inv by (rule announced_append) (simp add: not_read_def)
  show ?case
  proof (cases "iteration < max_iterations")
    case False
    have "announced not_read None
        (trace @ [Emit (Event ''error'' ''Component edit exceeded maximum iterations'')])"
      using inv by (rule announced_append) simp
    with False show ?thesis by (subst stream_loop.simps) simp
  next
    case lt: True
    show ?thesis
    proof (cases "llm (iteration + 1) messages")
      case (Inl e)
      with lt ended show ?thesis by (subst stream_loop.simps) simp
    next
      case (Inr response)
      consider (tool) "stop_reason response = ''tool_use''"
        | (fin) "stop_reason response \<noteq> ''tool_use''" "stop_reason response = ''end_turn''"
        | (other) "stop_reason response \<noteq> ''tool_use''" "stop_reason response \<noteq> ''end_turn''"
        by blast
      then show ?thesis
      proof cases
        case tool
        define out where "out = stream_tool_blocks component_name (resp_content response) [] fs
          (trace @ [Emit (iteration_event (iteration + 1)), Exec (CallLLM (iteration + 1))])"
        have tr: "announced not_read None (outcome_trace out)"
          unfolding out_def using called by (rule stream_tool_blocks_announced)
        have step: "stream_loop llm component_name existing_code iteration messages fs trace =
            (case out of
               SReturned fs' trace' \<Rightarrow>
                 \<lparr>s_trace = trace', s_store = fs', s_iterations = iteration + 1,
                  s_messages = messages
                    @ [\<lparr>role = ''assistant'', msg_content = Blocks (resp_content response)\<rparr>]\<rparr>
             | SRaised e fs' trace' \<Rightarrow>
                 \<lparr>s_trace = trace' @ [Emit (raised_event e)], s_store = fs',
                  s_iterations = iteration + 1,
                  s_messages = messages
                    @ [\<lparr>role = ''assistant'', msg_content = Blocks (resp_content response)\<rparr>]\<rparr>
             | SCompleted tool_results fs' trace' \<Rightarrow>
                 stream_loop llm component_name existing_code (iteration + 1)
                   (messages
                    @ [\<lparr>role = ''assistant'', msg_content = Blocks (resp_content response)\<rparr>,
                       \<lparr>role = ''user'', msg_content = ToolResults tool_results\<rparr>]) fs' trace')"
          unfolding out_def using lt Inr tool by (subst stream_loop.simps) simp
        show ?thesis
        proof (cases out)
          case (SReturned fs' trace')
          with tr show ?thesis unfolding step by simp
        next
          case (SRaised e fs' trace')
          with tr have "announced not_read None (trace' @ [Emit (raised_event e)])"
            by (intro announced_append) simp_all
          with SRaised show ?thesis unfolding step by simp
        next
          case (SCompleted tool_results fs' trace')
          with tr have "announced not_read None trace'" by simp
          from "1.IH"(1) [OF lt Inr tool SCompleted [unfolded out_def] this]
          show ?thesis
            unfolding step using SCompleted by simp
        qed
      next
        case fin
        show ?thesis
        proof (cases "read_component fs component_name")
          case (ReadOk n body p)
          show ?thesis
          proof (cases "body = existing_code")
            case True
            from "1.IH"(4) [OF lt Inr fin(1) fin(2) ReadOk _ reread] True
            show ?thesis
              using lt Inr fin ReadOk by (subst stream_loop.simps) simp
          next
            case False
            with lt Inr fin ReadOk reread show ?thesis
              by (subst stream_loop.simps) simp
          qed
        next
          case (ErrorResult m)
          from "1.IH"(2) [OF lt Inr fin(1) fin(2) ErrorResult reread]
          show ?thesis
            using lt Inr fin ErrorResult by (subst stream_loop.simps) simp
        next
          case (WriteOk p n m)
          then show ?thesis by (simp add: read_component_def split: option.splits)
        next
          case (ListOk cs k)
          then show ?thesis by (simp add: read_component_def split: option.splits)
        next
          case (PageOk p n c m)
          then show ?thesis by (simp add: read_component_def split: option.splits)
        qed
      next
        case other
        with lt Inr ended show ?thesis by (subst stream_loop.simps) simp
      qed
    qed
  qed
qed

lemma stream_tool_blocks_prefix:
  "prefix trace (outcome_trace (stream_tool_blocks name blocks acc fs trace))"
proof (induction name blocks acc fs trace rule: stream_tool_blocks.induct)
  case (3 component_name block_id tool_name tool_input blocks tool_results fs trace)
  show ?case
  proof (cases "process_tool_call tool_name tool_input fs")
    case (Inl e)
    then show ?thesis by simp
  next
    case (Inr res)
    obtain result fs' where res: "res = (result, fs')" by (cases res)
    show ?thesis
    proof (cases "tool_name = ''update_component'' \<and> status result = ''success''")
      case True
      with Inr res show ?thesis by simp
    next
      case False
      from "3.IH" [OF Inr res [symmetric] False] have "prefix trace
          (outcome_trace (stream_tool_blocks component_name blocks
             (tool_results @ [(block_id, result)]) fs'
             (trace @ [Emit (tool_event tool_name), Exec (CallTool tool_name tool_input)])))"
        using append_prefixD by blast
      with Inr res False show ?thesis by auto
    qed
  qed
qed simp_all

lemma stream_loop_prefix:
  "prefix trace (s_trace (stream_loop llm component_name existing_code iteration messages fs trace))"
proof (induction llm component_name existing_code iteration messages fs trace
    rule: stream_loop.induct)
  case (1 llm component_name existing_code iteration messages fs trace)
  show ?case
  proof (cases "iteration < max_iterations")
    case False
    then show ?thesis by (subst stream_loop.simps) simp
  next
    case lt: True
    show ?thesis
    proof (cases "llm (iteration + 1) messages")
      case (Inl e)
      with lt show ?thesis by (subst stream_loop.simps) simp
    next
      case (Inr response)
      consider (tool) "stop_reason response = ''tool_use''"
        | (fin) "stop_reason response \<noteq> ''tool_use''" "stop_reason response = ''end_turn''"
        | (other) "stop_reason response \<noteq> ''tool_use''" "stop_reason response \<noteq> ''end_turn''"
        by blast
      then show ?thesis
      proof cases
        case tool
        define out where "out = stream_tool_blocks component_name (resp_content response) [] fs
          (trace @ [Emit (iteration_event (iteration + 1)), Exec (CallLLM (iteration + 1))])"
        have "prefix (trace @ [Emit (iteration_event (iteration + 1)),
            Exec (CallLLM (iteration + 1))]) (outcome_trace out)"
          unfolding out_def by (rule stream_tool_blocks_prefix)
        then have tr: "prefix trace (outcome_trace out)"
          using append_prefixD by blast
        have step: "stream_loop llm component_name existing_code iteration messages fs trace =
            (case out of
               SReturned fs' trace' \<Rightarrow>
                 \<lparr>s_trace = trace', s_store = fs', s_iterations = iteration + 1,
                  s_messages = messages
                    @ [\<lparr>role = ''assistant'', msg_content = Blocks (resp_content response)\<rparr>]\<rparr>
             | SRaised e fs' trace' \<Rightarrow>
                 \<lparr>s_trace = trace' @ [Emit (raised_event e)], s_store = fs',
                  s_iterations = iteration + 1,
                  s_messages = messages
                    @ [\<lparr>role = ''assistant'', msg_content = Blocks (resp_content response)\<rparr>]\<rparr>
             | SCompleted tool_results fs' trace' \<Rightarrow>
                 stream_loop llm component_name existing_code (iteration + 1)
                   (messages
                    @ [\<lparr>role = ''assistant'', msg_content = Blocks (resp_content response)\<rparr>,
                       \<lparr>role = ''user'', msg_content = ToolResults tool_results\<rparr>]) fs' trace')"
          unfolding out_def using lt Inr tool by (subst stream_loop.simps) simp
        show ?thesis
        proof (cases out)
          case (SReturned fs' trace')
          with tr show ?thesis unfolding step by simp
        next
          case (SRaised e fs' trace')
          with tr have "prefix trace (trace' @ [Emit (raised_event e)])"
            by (simp add: prefix_prefix)
          with SRaised show ?thesis unfolding step by simp
        next
          case (SCompleted tool_results fs' trace')
          with tr have "prefix trace trace'" by simp
          with "1.IH"(1) [OF lt Inr tool SCompleted [unfolded out_def]]
          show ?thesis
            unfolding step using SCompleted by (auto intro: prefix_order.trans)
        qed
      next
        case fin
        show ?thesis
        proof (cases "read_component fs component_name")
          case (ReadOk n body p)
          show ?thesis
          proof (cases "body = existing_code")
            case True
            from "1.IH"(4) [OF lt Inr fin(1) fin(2) ReadOk] True
            show ?thesis
              using lt Inr fin ReadOk append_prefixD
              by (subst stream_loop.simps) auto
          next
            case False
            with lt Inr fin ReadOk show ?thesis
              by (subst stream_loop.simps) simp
          qed
        next
          case (ErrorResult m)
          from "1.IH"(2) [OF lt Inr fin(1) fin(2) ErrorResult]
          show ?thesis
            using lt Inr fin ErrorResult append_prefixD
            by (subst stream_loop.simps) auto
        next
          case (WriteOk p n m)
          then show ?thesis by (simp add: read_component_def split: option.splits)
        next
          case (ListOk cs k)
          then show ?thesis by (simp add: read_component_def split: option.splits)
        next
          case (PageOk p n c m)
          then show ?thesis by (simp add: read_component_def split: option.splits)
        qed
      next
        case other
        with lt Inr show ?thesis by (subst stream_loop.simps) simp
      qed
    qed
  qed
qed

text \<open>
  C9, as the code has it. In every run of the streaming edit, each call of the language
  model and each tool dispatch comes directly after the progress event that announces it.
  The initial read of the target component is the first step of the run, before any event;
  when it succeeds, its progress event follows it.
\<close>

theorem llm_and_tools_announced:
  "announced not_read None
     (s_trace (edit_component_streaming llm component_name description fs))
   \<and> hd (s_trace (edit_component_streaming llm component_name description fs))
       = Exec (ReadComponent component_name)
   \<and> (file_exists fs component_name \<longrightarrow>
        take 2 (s_trace (edit_component_streaming llm component_name description fs))
          = [Exec (ReadComponent component_name), Emit (reading_event component_name)])"
proof (cases "map_of fs component_name")
  case None
  then show ?thesis
    by (simp add: edit_component_streaming_def read_component_def file_exists_def not_read_def)
next
  case (Some existing_code)
  define start where "start = [Exec (ReadComponent component_name),
    Emit (reading_event component_name), Emit (Event ''progress'' ''Starting AI agent...'')]"
  define first_messages where "first_messages =
    [\<lparr>role = ''user'', msg_content = Text
       (edit_prompt component_name description existing_code
          (''IMPORTANT: You must use the update_component tool to save the modified ''
           @ ''component. Do not just describe the component - actually call the ''
           @ ''update_component tool with the full component code.''))\<rparr>]"
  have run: "edit_component_streaming llm component_name description fs
      = stream_loop llm component_name existing_code 0 first_messages fs start"
    using Some
    by (simp add: edit_component_streaming_def read_component_def start_def first_messages_def)
  have "announced not_read None start"
    by (simp add: start_def not_read_def)
  then have ann: "announced not_read None
      (s_trace (stream_loop llm component_name existing_code 0 first_messages fs start))"
    by (rule stream_loop_announced)
  obtain rest where rest: "s_trace (stream_loop llm component_name existing_code 0
      first_messages fs start) = start @ rest"
    using stream_loop_prefix [of start llm component_name existing_code 0 first_messages fs]
    by (auto simp: prefix_def)
  show ?thesis
    unfolding run using ann by (simp add: rest) (simp add: start_def)
qed

theorem llm_and_tools_announced_witness:
  "announced not_read None
     (s_trace (edit_component_streaming other_llm ''Button'' ''bigger''
        [(''Button'', button_code), (''Card'', ''const Card = 1'')]))
   \<and> take 2 (s_trace (edit_component_streaming other_llm ''Button'' ''bigger''
        [(''Button'', button_code), (''Card'', ''const Card = 1'')]))
     = [Exec (ReadComponent ''Button''), Emit (reading_event ''Button'')]"
proof -
  have "file_exists [(''Button'', button_code), (''Card'', ''const Card = 1'')] ''Button''"
    by (simp add: file_exists_def)
  with llm_and_tools_announced [of other_llm "''Button''" "''bigger''"
      "[(''Button'', button_code), (''Card'', ''const Card = 1'')]"]
  show ?thesis by blast
qed

text \<open>
  C9 as stated fails for the initial read: the run starts with the read of the component,
  and the event \<open>Reading component ...\<close> is emitted only after it.
\<close>

theorem read_announced_counterexample:
  "s_trace (edit_component_streaming stopped_llm ''Button'' ''bigger'' [(''Button'', button_code)])
     = [Exec (ReadComponent ''Button''),
        Emit (reading_event ''Button''),
        Emit (Event ''progress'' ''Starting AI agent...''),
        Emit (iteration_event 1),
        Exec (CallLLM 1),
        Emit (Event ''error'' ''Agent stopped unexpectedly: max_tokens'')]
   \<and> \<not> announced any_action None
        (s_trace (edit_component_streaming stopped_llm ''Button'' ''bigger''
           [(''Button'', button_code)]))"
  by (simp add: edit_component_streaming_def read_component_def stream_loop.simps
      stopped_llm_def max_iterations_def any_action_def)

end
